theory Spec2Isabelle
  imports Complex_Main "HOL-Library.Word" "HOL-Library.List_Lexorder"
begin

section \<open>Python values\<close>

text \<open>
  The runtimes move Python values between the control plane and the user's handler.
  \<open>pyval\<close> holds the values the transports can see: what \<open>json.loads\<close> produces
  (\<open>None\<close>, booleans, integers, floats, strings, lists, dictionaries with string keys),
  \<open>bytes\<close>, and an opaque object that no JSON encoder accepts (a set, an instance of a
  user class), kept with its type name and its truth value. A dictionary is the list of
  its items in insertion order. Floats are carried as reals, with the three special
  values on their own.
\<close>

type_synonym byte = "8 word"

datatype pyfloat = Finite real | Infinity bool | NaN

datatype pyval =
    PNone
  | PBool bool
  | PInt int
  | PFloat pyfloat
  | PStr string
  | PBytes "byte list"
  | PList "pyval list"
  | PDict "(string \<times> pyval) list"
  | PObject string bool

text \<open>An exception: \<open>type(e).__name__\<close> and \<open>str(e)\<close>.\<close>

record pyexc =
  exc_type :: string
  exc_str :: string

definition raise_exc :: "string \<Rightarrow> string \<Rightarrow> pyexc" where
  "raise_exc ty msg = \<lparr>exc_type = ty, exc_str = msg\<rparr>"

text \<open>\<open>bool(v)\<close>, as the \<open>if\<close> and \<open>and\<close> of the source apply it.\<close>

fun truthy :: "pyval \<Rightarrow> bool" where
  "truthy PNone = False"
| "truthy (PBool b) = b"
| "truthy (PInt i) = (i \<noteq> 0)"
| "truthy (PFloat (Finite x)) = (x \<noteq> 0)"
| "truthy (PFloat _) = True"
| "truthy (PStr s) = (s \<noteq> [])"
| "truthy (PBytes b) = (b \<noteq> [])"
| "truthy (PList xs) = (xs \<noteq> [])"
| "truthy (PDict kvs) = (kvs \<noteq> [])"
| "truthy (PObject _ t) = t"

text \<open>\<open>d.get(k)\<close> on a dictionary: the value, or \<open>None\<close>.\<close>

definition dict_get :: "(string \<times> pyval) list \<Rightarrow> string \<Rightarrow> pyval" where
  "dict_get kvs k = (case map_of kvs k of None \<Rightarrow> PNone | Some v \<Rightarrow> v)"

text \<open>\<open>str(x)\<close> of an optional string: \<open>None\<close> prints as \<open>None\<close>.\<close>

definition py_str :: "string option \<Rightarrow> string" where
  "py_str x = (case x of None \<Rightarrow> ''None'' | Some s \<Rightarrow> s)"

definition opt_val :: "string option \<Rightarrow> pyval" where
  "opt_val x = (case x of None \<Rightarrow> PNone | Some s \<Rightarrow> PStr s)"

subsection \<open>The JSON encoder\<close>

text \<open>
  \<open>json.dumps\<close> walks the value and raises \<open>TypeError\<close> at the first object it cannot
  encode. With \<open>sort_keys\<close> (the default of Flask's \<open>jsonify\<close>) the items of a
  dictionary are visited in the order of their keys, otherwise in insertion order.
\<close>

definition key_order :: "string \<times> 'a \<Rightarrow> nat list" where
  "key_order kv = map of_char (fst kv)"

definition visit_order :: "bool \<Rightarrow> (string \<times> 'a) list \<Rightarrow> (string \<times> 'a) list" where
  "visit_order sk kvs = (if sk then sort_key key_order kvs else kvs)"

definition not_serializable :: "string \<Rightarrow> pyexc" where
  "not_serializable ty =
     raise_exc ''TypeError'' (''Object of type '' @ ty @ '' is not JSON serializable'')"

fun first_error :: "pyexc option list \<Rightarrow> pyexc option" where
  "first_error [] = None"
| "first_error (None # es) = first_error es"
| "first_error (Some e # es) = Some e"

fun json_error :: "bool \<Rightarrow> pyval \<Rightarrow> pyexc option" where
  "json_error sk (PBytes b) = Some (not_serializable ''bytes'')"
| "json_error sk (PObject ty t) = Some (not_serializable ty)"
| "json_error sk (PList xs) = first_error (map (json_error sk) xs)"
| "json_error sk (PDict kvs) =
     first_error (map snd
       (visit_order sk (map (\<lambda>kv. (fst kv, json_error sk (snd kv))) kvs)))"
| "json_error sk v = None"

text \<open>\<open>json.dumps(v)\<close>: the document, or the encoder's exception.\<close>

definition json_dumps :: "pyval \<Rightarrow> pyexc + pyval" where
  "json_dumps v = (case json_error False v of Some e \<Rightarrow> Inl e | None \<Rightarrow> Inr v)"

text \<open>A value is JSON-serializable when the encoder finds nothing to refuse.\<close>

definition json_serializable :: "pyval \<Rightarrow> bool" where
  "json_serializable v = (json_error False v = None)"

subsection \<open>Base64\<close>

definition b64_alphabet :: string where
  "b64_alphabet =
     ''ABCDEFGHIJKLMNOPQRSTUVWXYZabcdefghijklmnopqrstuvwxyz0123456789+/''"

definition b64_char :: "nat \<Rightarrow> char" where
  "b64_char n = b64_alphabet ! (n mod 64)"

fun b64_groups :: "nat list \<Rightarrow> string" where
  "b64_groups (a # b # c # rest) =
     [b64_char (a div 4), b64_char ((a mod 4) * 16 + b div 16),
      b64_char ((b mod 16) * 4 + c div 64), b64_char (c mod 64)] @ b64_groups rest"
| "b64_groups [a, b] =
     [b64_char (a div 4), b64_char ((a mod 4) * 16 + b div 16),
      b64_char ((b mod 16) * 4), CHR ''='']"
| "b64_groups [a] =
     [b64_char (a div 4), b64_char ((a mod 4) * 16), CHR ''='', CHR ''='']"
| "b64_groups [] = []"

text \<open>\<open>b64encode(result).decode()\<close>.\<close>

definition b64encode :: "byte list \<Rightarrow> string" where
  "b64encode bs = b64_groups (map unat bs)"

subsection \<open>Conversions to int\<close>

text \<open>\<open>int(x)\<close> of a float truncates towards zero.\<close>

definition py_int :: "real \<Rightarrow> int" where
  "py_int x = (if 0 \<le> x then \<lfloor>x\<rfloor> else \<lceil>x\<rceil>)"

text \<open>
  \<open>repr(s)\<close> of a string of 8-bit characters, which the messages of \<open>int\<close> quote:
  the quote is the apostrophe unless the string holds an apostrophe and no double quote;
  the quote and the backslash are escaped, newline, carriage return and tab print as
  \<open>\n\<close>, \<open>\r\<close> and \<open>\t\<close>, and every other character that is not printable as
  \<open>\xNN\<close>.
\<close>

definition hex_digit :: "nat \<Rightarrow> char" where
  "hex_digit n = ''0123456789abcdef'' ! (n mod 16)"

definition is_printable :: "char \<Rightarrow> bool" where
  "is_printable c =
     (\<not> ((of_char c :: nat) < 32 \<or> (127 \<le> (of_char c :: nat) \<and> (of_char c :: nat) \<le> 160)
         \<or> (of_char c :: nat) = 173))"

definition repr_quote :: "string \<Rightarrow> char" where
  "repr_quote s = (if CHR 0x27 \<in> set s \<and> CHR 0x22 \<notin> set s then CHR 0x22 else CHR 0x27)"

definition repr_char :: "char \<Rightarrow> char \<Rightarrow> string" where
  "repr_char q c =
     (if c = q \<or> c = CHR 0x5C then [CHR 0x5C, c]
      else if c = CHR 0x0A then [CHR 0x5C, CHR ''n'']
      else if c = CHR 0x0D then [CHR 0x5C, CHR ''r'']
      else if c = CHR 0x09 then [CHR 0x5C, CHR ''t'']
      else if is_printable c then [c]
      else [CHR 0x5C, CHR ''x'', hex_digit (of_char c div 16), hex_digit (of_char c mod 16)])"

definition py_repr :: "string \<Rightarrow> string" where
  "py_repr s = repr_quote s # concat (map (repr_char (repr_quote s)) s) @ [repr_quote s]"

text \<open>\<open>str(n)\<close> of a natural number.\<close>

function show_nat :: "nat \<Rightarrow> string" where
  "show_nat n =
     (if n < 10 then [char_of (48 + n)]
      else show_nat (n div 10) @ [char_of (48 + n mod 10)])"
  by pat_completeness auto
termination
  by (relation "measure id") auto

declare show_nat.simps [simp del]

text \<open>
  \<open>int(s)\<close> of a string, base 10. Leading whitespace is skipped and one sign is
  allowed. Then the run of digits and underscores is scanned: it must be digits with at
  most a single underscore between two of them. A run of more than 4300 digits is
  refused with its own message. What follows the run must be whitespace only. Every
  failure is a \<open>ValueError\<close>.
\<close>

definition c_isspace :: "char \<Rightarrow> bool" where
  "c_isspace c = ((of_char c :: nat) = 32 \<or> (9 \<le> (of_char c :: nat) \<and> (of_char c :: nat) \<le> 13))"

text \<open>
  A character of the ASCII range stays as it is and is whitespace by the C notion; of
  the other 8-bit characters, the two Unicode spaces (next line and no-break space) are
  first turned into blanks.
\<close>

definition int_isspace :: "char \<Rightarrow> bool" where
  "int_isspace c = (c_isspace c \<or> (of_char c :: nat) = 133 \<or> (of_char c :: nat) = 160)"

definition is_digit :: "char \<Rightarrow> bool" where
  "is_digit c = (48 \<le> (of_char c :: nat) \<and> (of_char c :: nat) \<le> 57)"

definition digit_val :: "char \<Rightarrow> nat" where
  "digit_val c = of_char c - 48"

definition in_run :: "char \<Rightarrow> bool" where
  "in_run c = (is_digit c \<or> c = CHR ''_'')"

fun parse_digits :: "string \<Rightarrow> nat list option" where
  "parse_digits [] = None"
| "parse_digits [c] = (if is_digit c then Some [digit_val c] else None)"
| "parse_digits (c # d # cs) =
     (if is_digit c
      then map_option (Cons (digit_val c))
             (if d = CHR ''_'' then parse_digits cs else parse_digits (d # cs))
      else None)"

definition digits_value :: "nat list \<Rightarrow> int" where
  "digits_value ds = int (foldl (\<lambda>a d. 10 * a + d) 0 ds)"

definition max_str_digits :: nat where
  "max_str_digits = 4300"

definition invalid_literal :: "string \<Rightarrow> pyexc" where
  "invalid_literal s =
     raise_exc ''ValueError'' (''invalid literal for int() with base 10: '' @ py_repr s)"

definition exceeds_limit :: "nat \<Rightarrow> pyexc" where
  "exceeds_limit n =
     raise_exc ''ValueError''
       (''Exceeds the limit (4300 digits) for integer string conversion: value has ''
        @ show_nat n
        @ '' digits; use sys.set_int_max_str_digits() to increase the limit'')"

text \<open>The digits of \<open>s\<close> after its sign: \<open>u\<close> is what follows the sign.\<close>

definition scan_digits :: "string \<Rightarrow> string \<Rightarrow> pyexc + int" where
  "scan_digits s u =
     (case parse_digits (takeWhile in_run u) of
        None \<Rightarrow> Inl (invalid_literal s)
      | Some ds \<Rightarrow>
          if max_str_digits < length ds then Inl (exceeds_limit (length ds))
          else if list_all int_isspace (dropWhile in_run u) then Inr (digits_value ds)
          else Inl (invalid_literal s))"

definition py_int_str :: "string \<Rightarrow> pyexc + int" where
  "py_int_str s =
     (case dropWhile int_isspace s of
        [] \<Rightarrow> Inl (invalid_literal s)
      | c # cs \<Rightarrow>
          if c = CHR ''-'' then
            (case scan_digits s cs of Inl e \<Rightarrow> Inl e | Inr n \<Rightarrow> Inr (- n))
          else if c = CHR ''+'' then scan_digits s cs
          else scan_digits s (c # cs))"


section \<open>What a run leaves behind\<close>

text \<open>
  Every effect of the runtimes is an event of the run, in the order it happens: a line
  printed to one of the process streams (the literal parts and the interpolated values of
  its f-string), a structured log entry, a call of the user's handler with its two
  arguments, a sleep, an HTTP request to the Runtime API, a WebSocket connection attempt,
  a frame handed to the socket, a module import.
\<close>

datatype out_stream = Stdout | Stderr

datatype piece = S string | V pyval

datatype event =
    Print out_stream "piece list"
  | Log string string "(string \<times> pyval) list"
  | HandlerCall pyval pyval
  | Sleep real
  | HttpGet string "(string \<times> string) list"
  | HttpPost string "(string \<times> string) list" pyval
  | WsConnect string
  | WsSend pyval
  | Import string

text \<open>The handler: \<open>handler(event, context)\<close> returns a value or raises.\<close>

type_synonym handler_fn = "pyval \<Rightarrow> pyval \<Rightarrow> pyexc + pyval"

section \<open>Push transport: \<open>runtimes/python-ric/src/runtime.py\<close>\<close>

record RuntimeInterface =
  handler :: "handler_fn option"
  is_shutting_down :: bool

text \<open>
  A request to \<open>/invoke\<close>: what \<open>request.headers.get\<close> finds for the two headers and
  what \<open>request.get_json()\<close> returns or raises.
\<close>

record request =
  x_deadline_ms :: "string option"
  x_request_id :: "string option"
  get_json :: "pyexc + pyval"

text \<open>
  What the request reads from outside the program: \<open>datetime.now().timestamp() * 1000\<close>
  at each of the places that read the clock, and the formatted traceback of an
  exception. The clock is a real number of milliseconds.
\<close>

record surroundings =
  now_start :: real
  now_context :: real
  now_completed :: real
  now_failed :: real
  format_exception :: "pyexc \<Rightarrow> string list"

text \<open>A Flask response: the status and the document given to \<open>jsonify\<close>.\<close>

record response =
  http_status :: int
  json :: pyval

text \<open>
  \<open>self.log\<close>: one entry with the level, the message and the keyword fields. The
  timestamp and the upper-casing of the level are left to the entry's reader.
\<close>

definition log :: "string \<Rightarrow> string \<Rightarrow> (string \<times> pyval) list \<Rightarrow> event" where
  "log level message kwargs = Log level message kwargs"

definition get_stack_trace :: "surroundings \<Rightarrow> pyexc \<Rightarrow> pyval" where
  "get_stack_trace w error = PList (map PStr (format_exception w error))"

definition jsonify :: "pyval \<Rightarrow> pyexc + pyval" where
  "jsonify v = (case json_error True v of Some e \<Rightarrow> Inl e | None \<Rightarrow> Inr v)"

definition envelope :: "int \<Rightarrow> pyval \<Rightarrow> pyval" where
  "envelope code b =
     PDict [(''status_code'', PInt code), (''body'', b), (''logs'', PList [])]"

definition respond :: "int \<Rightarrow> pyval \<Rightarrow> pyexc + response" where
  "respond code doc =
     (case jsonify doc of
        Inl e \<Rightarrow> Inl e
      | Inr d \<Rightarrow> Inr \<lparr>http_status = code, json = d\<rparr>)"

definition health :: "pyexc + response" where
  "health = respond 200 (PDict [(''status'', PStr ''ok'')])"

definition shutting_down_body :: pyval where
  "shutting_down_body =
     PDict [(''errorMessage'', PStr ''Service is shutting down''),
            (''errorType'', PStr ''ServiceUnavailable'')]"

text \<open>The three returns of lines 124 to 144, in the source's order.\<close>

definition respond_bytes :: "byte list \<Rightarrow> pyexc + response" where
  "respond_bytes b =
     respond 200 (envelope 200
       (PDict [(''base64'', PBool True), (''data'', PStr (b64encode b))]))"

definition respond_marked :: "pyval \<Rightarrow> pyexc + response" where
  "respond_marked result = respond 200 (envelope 200 result)"

definition respond_default :: "pyval \<Rightarrow> pyexc + response" where
  "respond_default result = respond 200 (envelope 200 result)"

definition has_base64_marker :: "pyval \<Rightarrow> bool" where
  "has_base64_marker result =
     (case result of PDict kvs \<Rightarrow> truthy (dict_get kvs ''base64'') | _ \<Rightarrow> False)"

definition classify_result :: "pyval \<Rightarrow> pyexc + response" where
  "classify_result result =
     (case result of
        PBytes b \<Rightarrow> respond_bytes b
      | _ \<Rightarrow> if has_base64_marker result then respond_marked result
             else respond_default result)"

text \<open>Line 97: \<open>int(request.headers.get('x-deadline-ms', 0))\<close>.\<close>

definition read_deadline :: "request \<Rightarrow> pyexc + int" where
  "read_deadline req =
     (case x_deadline_ms req of None \<Rightarrow> Inr 0 | Some s \<Rightarrow> py_int_str s)"

definition read_request_id :: "request \<Rightarrow> string" where
  "read_request_id req = (case x_request_id req of None \<Rightarrow> ''unknown'' | Some s \<Rightarrow> s)"

text \<open>Lines 111 to 114.\<close>

definition remaining_ms :: "surroundings \<Rightarrow> int \<Rightarrow> int" where
  "remaining_ms w deadline_ms =
     (if 0 < deadline_ms then deadline_ms - py_int (now_context w - now_start w) else 0)"

definition make_context :: "surroundings \<Rightarrow> int \<Rightarrow> string \<Rightarrow> pyval" where
  "make_context w deadline_ms request_id =
     PDict [(''deadlineMs'', PInt (remaining_ms w deadline_ms)),
            (''requestId'', PStr request_id)]"

text \<open>Line 117: \<open>self.handler\<close> is \<open>None\<close> until \<open>init\<close> has loaded the handler.\<close>

definition call_handler ::
  "handler_fn option \<Rightarrow> pyval \<Rightarrow> pyval \<Rightarrow> event list \<times> (pyexc + pyval)" where
  "call_handler h ev context =
     (case h of
        None \<Rightarrow> ([], Inl (raise_exc ''TypeError'' ([CHR 0x27] @ ''NoneType'' @ [CHR 0x27] @ '' object is not callable'')))
      | Some f \<Rightarrow> ([HandlerCall ev context], f ev context))"

text \<open>The body of the \<open>try\<close>, lines 104 to 144.\<close>

definition invoke_try ::
  "RuntimeInterface \<Rightarrow> surroundings \<Rightarrow> request \<Rightarrow> int \<Rightarrow> string
     \<Rightarrow> event list \<times> (pyexc + response)" where
  "invoke_try self w req deadline_ms request_id =
     (case get_json req of
        Inl e \<Rightarrow> ([], Inl e)
      | Inr ev \<Rightarrow>
          (case call_handler (handler self) ev (make_context w deadline_ms request_id) of
             (called, Inl e) \<Rightarrow> (called, Inl e)
           | (called, Inr result) \<Rightarrow>
               (called @
                [log ''info'' ''Function execution completed successfully''
                   [(''requestId'', PStr request_id),
                    (''executionTimeMs'', PInt (py_int (now_completed w - now_start w)))]],
                classify_result result)))"

text \<open>The \<open>except Exception as e\<close> clause, lines 146 to 164.\<close>

definition invoke_except ::
  "surroundings \<Rightarrow> string \<Rightarrow> pyexc \<Rightarrow> event list \<times> (pyexc + response)" where
  "invoke_except w request_id e =
     ([log ''error'' ''Function execution failed''
         [(''requestId'', PStr request_id),
          (''executionTimeMs'', PInt (py_int (now_failed w - now_start w))),
          (''error'', PDict [(''type'', PStr (exc_type e)),
                            (''message'', PStr (exc_str e)),
                            (''stack'', get_stack_trace w e)])]],
      respond 500 (envelope 500
        (PDict [(''errorMessage'', PStr (exc_str e)),
                (''errorType'', PStr (exc_type e)),
                (''stackTrace'', get_stack_trace w e)])))"

text \<open>
  The view function of \<open>POST /invoke\<close>. The result is the events of the request and
  either the response or the exception that leaves the view function.
\<close>

definition invoke ::
  "RuntimeInterface \<Rightarrow> surroundings \<Rightarrow> request \<Rightarrow> event list \<times> (pyexc + response)" where
  "invoke self w req =
     (if is_shutting_down self then ([], respond 503 (envelope 503 shutting_down_body))
      else
        (case read_deadline req of
           Inl e \<Rightarrow> ([], Inl e)
         | Inr deadline_ms \<Rightarrow>
             (let request_id = read_request_id req;
                  started = log ''info'' ''Function execution started''
                     [(''requestId'', PStr request_id), (''deadlineMs'', PInt deadline_ms)]
              in case invoke_try self w req deadline_ms request_id of
                   (evs, Inr resp) \<Rightarrow> (started # evs, Inr resp)
                 | (evs, Inl e) \<Rightarrow>
                     (case invoke_except w request_id e of
                        (evs', out) \<Rightarrow> (started # evs @ evs', out)))))"

definition handle_shutdown :: "RuntimeInterface \<Rightarrow> event list \<times> RuntimeInterface" where
  "handle_shutdown self =
     ([log ''info'' ''Container termination signal received'' []],
      self\<lparr>is_shutting_down := True\<rparr>)"

text \<open>
  The life of the server after start-up: termination signals and requests, one after
  the other. \<open>serve\<close> gives the state after one of them; the view functions assign
  nothing, so a request leaves the object as it was.
\<close>

datatype server_op = Signal | GetHealth | PostInvoke surroundings request

fun serve :: "RuntimeInterface \<Rightarrow> server_op \<Rightarrow> RuntimeInterface" where
  "serve self Signal = snd (handle_shutdown self)"
| "serve self GetHealth = self"
| "serve self (PostInvoke w req) = self"

definition serve_all :: "RuntimeInterface \<Rightarrow> server_op list \<Rightarrow> RuntimeInterface" where
  "serve_all self ops = foldl serve self ops"

text \<open>Whether the handler was called during a run.\<close>

fun is_handler_call :: "event \<Rightarrow> bool" where
  "is_handler_call (HandlerCall ev context) = True"
| "is_handler_call _ = False"

definition handler_calls :: "event list \<Rightarrow> event list" where
  "handler_calls evs = filter is_handler_call evs"

section \<open>The process environment of the two bootstrap runtimes\<close>

text \<open>
  \<open>os.environ.get\<close> for each variable the two bootstrap modules read at import time,
  the user's handler they load, and the lines of \<open>traceback.format_exc()\<close> while an
  exception is being handled.
\<close>

record environ =
  AWS_LAMBDA_RUNTIME_API :: "string option"
  AWS_LAMBDA_FUNCTION_NAME :: "string option"
  AWS_LAMBDA_FUNCTION_VERSION :: "string option"
  AWS_LAMBDA_FUNCTION_MEMORY_SIZE :: "string option"
  AWS_LAMBDA_LOG_GROUP_NAME :: "string option"
  AWS_LAMBDA_LOG_STREAM_NAME :: "string option"
  LAMBDAH_INSTANCE_ID :: "string option"

definition RUNTIME_API :: "environ \<Rightarrow> string" where
  "RUNTIME_API env =
     (case AWS_LAMBDA_RUNTIME_API env of None \<Rightarrow> ''localhost:9001'' | Some a \<Rightarrow> a)"

text \<open>\<open>if INSTANCE_ID:\<close> holds for a non-empty string only.\<close>

definition instance_header :: "environ \<Rightarrow> (string \<times> string) list" where
  "instance_header env =
     (case LAMBDAH_INSTANCE_ID env of
        None \<Rightarrow> []
      | Some i \<Rightarrow> if i = [] then [] else [(''X-LambdaH-Instance-Id'', i)])"

section \<open>Poll transport: \<open>runtimes/python311/bootstrap.py\<close>\<close>

record invocation =
  requestId :: "string option"
  deadline :: "string option"
  invokedFunctionArn :: "string option"
  traceId :: "string option"
  payload :: pyval

text \<open>
  One turn of the loop meets the Runtime API up to three times. \<open>poll_cycle\<close> says what
  the API does in that turn: what the long poll yields (the invocation read from the
  response, or what \<open>urlopen\<close>, \<open>decode\<close> or \<open>json.loads\<close> raise), and what
  \<open>urlopen\<close> raises, if anything, for the POST of the response and for the POST of the
  error.
\<close>

record poll_cycle =
  fetched :: "pyexc + invocation"
  response_post :: "pyexc option"
  error_post :: "pyexc option"

record process =
  env :: environ
  lambda_handler :: handler_fn
  format_exc :: "pyexc \<Rightarrow> string list"

definition invocation_url :: "environ \<Rightarrow> string option \<Rightarrow> string \<Rightarrow> string" where
  "invocation_url e request_id what =
     ''http://'' @ RUNTIME_API e @ ''/2018-06-01/runtime/invocation/'' @ py_str request_id
       @ ''/'' @ what"

definition get_next_invocation ::
  "process \<Rightarrow> pyexc + invocation \<Rightarrow> event list \<times> (pyexc + invocation)" where
  "get_next_invocation p got =
     ([HttpGet (''http://'' @ RUNTIME_API (env p) @ ''/2018-06-01/runtime/invocation/next?fn=''
                 @ py_str (AWS_LAMBDA_FUNCTION_NAME (env p)))
         (instance_header (env p) @ [(''User-Agent'', ''lambda-runtime-interface-client'')])],
      case got of
        Inl e \<Rightarrow> Inl (raise_exc ''Exception'' (''Failed to get next invocation: '' @ exc_str e))
      | Inr invocation \<Rightarrow> Inr invocation)"

definition post_response ::
  "process \<Rightarrow> string option \<Rightarrow> pyval \<Rightarrow> pyexc option \<Rightarrow> event list \<times> (pyexc + unit)" where
  "post_response p request_id resp outcome =
     (case json_dumps resp of
        Inl e \<Rightarrow> ([], Inl (raise_exc ''Exception'' (''Failed to post response: '' @ exc_str e)))
      | Inr data \<Rightarrow>
          ([HttpPost (invocation_url (env p) request_id ''response'')
              (instance_header (env p) @ [(''Content-Type'', ''application/json'')]) data],
           case outcome of
             Some e \<Rightarrow> Inl (raise_exc ''Exception'' (''Failed to post response: '' @ exc_str e))
           | None \<Rightarrow> Inr ()))"

definition error_data :: "process \<Rightarrow> pyexc \<Rightarrow> pyval" where
  "error_data p error =
     PDict [(''errorType'', PStr (exc_type error)),
            (''errorMessage'', PStr (exc_str error)),
            (''stackTrace'', PList (map PStr (format_exc p error)))]"

definition post_error :: "process \<Rightarrow> string option \<Rightarrow> pyexc \<Rightarrow> pyexc option \<Rightarrow> event list" where
  "post_error p request_id error outcome =
     (case json_dumps (error_data p error) of
        Inl e \<Rightarrow> [Print Stderr [S ''Failed to post error: '', S (exc_str e)]]
      | Inr data \<Rightarrow>
          HttpPost (invocation_url (env p) request_id ''error'')
            (instance_header (env p) @ [(''Content-Type'', ''application/json'')]) data
          # (case outcome of
               Some e \<Rightarrow> [Print Stderr [S ''Failed to post error: '', S (exc_str e)]]
             | None \<Rightarrow> []))"

definition poll_context :: "process \<Rightarrow> invocation \<Rightarrow> pyval" where
  "poll_context p invocation =
     PDict [(''function_name'', opt_val (AWS_LAMBDA_FUNCTION_NAME (env p))),
            (''function_version'', opt_val (AWS_LAMBDA_FUNCTION_VERSION (env p))),
            (''memory_limit_in_mb'', opt_val (AWS_LAMBDA_FUNCTION_MEMORY_SIZE (env p))),
            (''log_group_name'', opt_val (AWS_LAMBDA_LOG_GROUP_NAME (env p))),
            (''log_stream_name'', opt_val (AWS_LAMBDA_LOG_STREAM_NAME (env p))),
            (''aws_request_id'', opt_val (requestId invocation)),
            (''invoked_function_arn'', opt_val (invokedFunctionArn invocation)),
            (''trace_id'', opt_val (traceId invocation))]"

text \<open>The inner \<open>try\<close> of \<open>main\<close>, lines 99 to 113.\<close>

definition dispatch_try ::
  "process \<Rightarrow> invocation \<Rightarrow> pyexc option \<Rightarrow> event list \<times> (pyexc + unit)" where
  "dispatch_try p invocation outcome =
     (let context = poll_context p invocation in
      case lambda_handler p (payload invocation) context of
        Inl error \<Rightarrow> ([HandlerCall (payload invocation) context], Inl error)
      | Inr result \<Rightarrow>
          (case post_response p (requestId invocation) result outcome of
             (evs, Inl error) \<Rightarrow> (HandlerCall (payload invocation) context # evs, Inl error)
           | (evs, Inr u) \<Rightarrow>
               (HandlerCall (payload invocation) context # evs
                  @ [Print Stdout [S ''Response posted for: '', V (opt_val (requestId invocation))]],
                Inr ())))"

text \<open>One turn of \<open>while True\<close>, lines 95 to 122.\<close>

definition main_cycle :: "process \<Rightarrow> poll_cycle \<Rightarrow> event list" where
  "main_cycle p c =
     (case get_next_invocation p (fetched c) of
        (evs, Inl error) \<Rightarrow>
          evs @ [Print Stderr [S ''Runtime error: '', S (exc_str error)], Sleep 1]
      | (evs, Inr invocation) \<Rightarrow>
          evs @ [Print Stdout [S ''Received invocation: '', V (opt_val (requestId invocation))]]
          @ (case dispatch_try p invocation (response_post c) of
               (evs', Inr u) \<Rightarrow> evs'
             | (evs', Inl error) \<Rightarrow>
                 evs' @ [Print Stderr [S ''Handler error: '', S (exc_str error)]]
                 @ post_error p (requestId invocation) error (error_post c)))"

text \<open>
  The loop never ends; its run over the first turns of the Runtime API is the run of
  each turn, one after the other.
\<close>

fun main_loop :: "process \<Rightarrow> poll_cycle list \<Rightarrow> event list" where
  "main_loop p [] = []"
| "main_loop p (c # cs) = main_cycle p c @ main_loop p cs"

definition main :: "process \<Rightarrow> poll_cycle list \<Rightarrow> event list" where
  "main p cs = Print Stdout [S ''Lambda runtime started''] # main_loop p cs"

text \<open>
  Executing the module under a given \<open>__name__\<close>: the handler is loaded (it is the one
  the process holds) and the functions are defined; the guard of lines 124 and 125 calls
  \<open>main\<close> only when the module is the program.
\<close>

definition bootstrap_module :: "string \<Rightarrow> process \<Rightarrow> poll_cycle list \<Rightarrow> event list" where
  "bootstrap_module name p cs = (if name = ''__main__'' then main p cs else [])"


section \<open>Stream transport: \<open>service/runtimes/python311/bootstrap-websocket.py\<close>\<close>

text \<open>
  What the Runtime API does on the socket. A connection attempt either raises or yields
  a connection; on a connection, \<open>websocket.send\<close> may raise for the register frame and
  for the reply to each inbound message, each inbound message is what \<open>json.loads\<close>
  makes of it (the data, or the exception raised), and the iteration over the socket ends
  normally, with \<open>ConnectionClosed\<close>, or with another exception.
\<close>

datatype loop_end = IteratorEnds | ConnectionClosed | LoopError pyexc

record inbound =
  loaded :: "pyexc + pyval"
  reply_fails :: "pyexc option"

record session =
  register_fails :: "pyexc option"
  inbounds :: "inbound list"
  ending :: loop_end

datatype attempt = ConnectFails pyexc | Connects session

record WebSocketRuntime =
  websocket :: "session option"
  reconnect_attempts :: int
  max_reconnect_attempts :: int
  reconnect_delay :: real
  is_connected :: bool
  should_stop :: bool

text \<open>\<open>__init__\<close>.\<close>

definition new_runtime :: WebSocketRuntime where
  "new_runtime =
     \<lparr>websocket = None, reconnect_attempts = 0, max_reconnect_attempts = 10,
      reconnect_delay = 1, is_connected = False, should_stop = False\<rparr>"

definition FUNCTION_VERSION :: "environ \<Rightarrow> string" where
  "FUNCTION_VERSION e = (case AWS_LAMBDA_FUNCTION_VERSION e of None \<Rightarrow> ''1'' | Some v \<Rightarrow> v)"

definition ws_url :: "environ \<Rightarrow> string" where
  "ws_url e =
     ''ws://'' @ RUNTIME_API e @ ''/2018-06-01/runtime/websocket?fn=''
       @ py_str (AWS_LAMBDA_FUNCTION_NAME e)"

text \<open>The \<open>try\<close> inside \<open>send\<close>, line 158.\<close>

definition send_try :: "pyval \<Rightarrow> pyexc option \<Rightarrow> event list \<times> (pyexc + unit)" where
  "send_try message fails =
     (case json_dumps message of
        Inl e \<Rightarrow> ([], Inl e)
      | Inr text \<Rightarrow> ([WsSend text], case fails of Some e \<Rightarrow> Inl e | None \<Rightarrow> Inr ()))"

definition send ::
  "WebSocketRuntime \<Rightarrow> pyval \<Rightarrow> pyexc option \<Rightarrow> event list \<times> (pyexc + unit)" where
  "send self message fails =
     (if websocket self \<noteq> None \<and> is_connected self then
        (case send_try message fails of
           (evs, Inl e) \<Rightarrow>
             (evs @ [Print Stderr [S ''Failed to send WebSocket message: '', S (exc_str e)]],
              Inr ())
         | (evs, Inr u) \<Rightarrow> (evs, Inr ()))
      else ([Print Stderr [S ''WebSocket not connected, cannot send message'']], Inr ()))"

definition register ::
  "process \<Rightarrow> WebSocketRuntime \<Rightarrow> pyexc option \<Rightarrow> event list \<times> (pyexc + unit)" where
  "register p self fails =
     send self
       (PDict [(''type'', PStr ''register''),
               (''function_name'', opt_val (AWS_LAMBDA_FUNCTION_NAME (env p))),
               (''runtime'', PStr ''python311''),
               (''version'', PStr (FUNCTION_VERSION (env p))),
               (''instance_id'', opt_val (LAMBDAH_INSTANCE_ID (env p)))])
       fails"

definition stream_context :: "process \<Rightarrow> (string \<times> pyval) list \<Rightarrow> pyval" where
  "stream_context p message =
     PDict [(''function_name'', opt_val (AWS_LAMBDA_FUNCTION_NAME (env p))),
            (''function_version'', PStr (FUNCTION_VERSION (env p))),
            (''memory_limit_in_mb'', opt_val (AWS_LAMBDA_FUNCTION_MEMORY_SIZE (env p))),
            (''log_group_name'', opt_val (AWS_LAMBDA_LOG_GROUP_NAME (env p))),
            (''log_stream_name'', opt_val (AWS_LAMBDA_LOG_STREAM_NAME (env p))),
            (''aws_request_id'', dict_get message ''request_id''),
            (''invoked_function_arn'', dict_get message ''invoked_function_arn''),
            (''trace_id'', dict_get message ''trace_id'')]"

definition response_frame :: "process \<Rightarrow> pyval \<Rightarrow> pyval \<Rightarrow> pyval" where
  "response_frame p request_id result =
     PDict [(''type'', PStr ''response''),
            (''request_id'', request_id),
            (''payload'', result),
            (''headers'', PDict [(''X-Amz-Executed-Version'', PStr (FUNCTION_VERSION (env p)))])]"

definition error_frame :: "process \<Rightarrow> pyval \<Rightarrow> pyexc \<Rightarrow> pyval" where
  "error_frame p request_id error =
     PDict [(''type'', PStr ''error''),
            (''request_id'', request_id),
            (''error_message'', PStr (exc_str error)),
            (''error_type'', PStr (exc_type error)),
            (''stack_trace'', PList (map PStr (format_exc p error))),
            (''headers'', PDict [(''X-Amz-Function-Error'', PStr ''Unhandled'')])]"

text \<open>The \<open>try\<close> of \<open>handle_invocation\<close>, lines 111 to 137.\<close>

definition invocation_try ::
  "process \<Rightarrow> WebSocketRuntime \<Rightarrow> (string \<times> pyval) list \<Rightarrow> pyexc option
     \<Rightarrow> event list \<times> (pyexc + unit)" where
  "invocation_try p self message fails =
     (let request_id = dict_get message ''request_id'';
          payload = dict_get message ''payload'';
          context = stream_context p message
      in case lambda_handler p payload context of
           Inl error \<Rightarrow> ([HandlerCall payload context], Inl error)
         | Inr result \<Rightarrow>
             (case send self (response_frame p request_id result) fails of
                (evs, Inl error) \<Rightarrow> (HandlerCall payload context # evs, Inl error)
              | (evs, Inr u) \<Rightarrow>
                  (HandlerCall payload context # evs
                     @ [Print Stdout [S ''Response posted for: '', V request_id]],
                   Inr ())))"

definition handle_invocation ::
  "process \<Rightarrow> WebSocketRuntime \<Rightarrow> (string \<times> pyval) list \<Rightarrow> pyexc option
     \<Rightarrow> event list \<times> (pyexc + unit)" where
  "handle_invocation p self message fails =
     (let request_id = dict_get message ''request_id'';
          received = Print Stdout [S ''Received invocation: '', V request_id]
      in case invocation_try p self message fails of
           (evs, Inr u) \<Rightarrow> (received # evs, Inr ())
         | (evs, Inl error) \<Rightarrow>
             (case send self (error_frame p request_id error) fails of
                (evs', out) \<Rightarrow>
                  (received # evs @ [Print Stderr [S ''Handler error: '', S (exc_str error)]]
                     @ evs', out)))"

fun type_name :: "pyval \<Rightarrow> string" where
  "type_name PNone = ''NoneType''"
| "type_name (PBool b) = ''bool''"
| "type_name (PInt i) = ''int''"
| "type_name (PFloat x) = ''float''"
| "type_name (PStr s) = ''str''"
| "type_name (PBytes b) = ''bytes''"
| "type_name (PList xs) = ''list''"
| "type_name (PDict kvs) = ''dict''"
| "type_name (PObject ty t) = ty"

text \<open>\<open>message.get("message", "Unknown error")\<close>.\<close>

definition dict_get_or :: "(string \<times> pyval) list \<Rightarrow> string \<Rightarrow> pyval \<Rightarrow> pyval" where
  "dict_get_or kvs k d = (case map_of kvs k of None \<Rightarrow> d | Some v \<Rightarrow> v)"

definition handle_message ::
  "process \<Rightarrow> WebSocketRuntime \<Rightarrow> pyval \<Rightarrow> pyexc option \<Rightarrow> event list \<times> (pyexc + unit)" where
  "handle_message p self data fails =
     (case data of
        PDict message \<Rightarrow>
          (let message_type = dict_get message ''type'' in
           if message_type = PStr ''invocation'' then handle_invocation p self message fails
           else if message_type = PStr ''ping'' then
             send self (PDict [(''type'', PStr ''pong'')]) fails
           else if message_type = PStr ''error_response'' then
             ([Print Stderr [S ''Server error: '',
                 V (dict_get_or message ''message'' (PStr ''Unknown error''))]], Inr ())
           else ([Print Stderr [S ''Unknown message type: '', V message_type]], Inr ()))
      | _ \<Rightarrow>
          ([], Inl (raise_exc ''AttributeError''
                 ([CHR 0x27] @ type_name data @ [CHR 0x27]
                    @ '' object has no attribute '' @ [CHR 0x27] @ ''get'' @ [CHR 0x27]))))"

text \<open>The two \<open>except\<close> clauses inside the loop, lines 75 to 78.\<close>

definition message_except :: "pyexc \<Rightarrow> event list" where
  "message_except e =
     (if exc_type e = ''JSONDecodeError''
      then [Print Stderr [S ''Failed to parse WebSocket message: '', S (exc_str e)]]
      else [Print Stderr [S ''Error handling message: '', S (exc_str e)]])"

definition on_message :: "process \<Rightarrow> WebSocketRuntime \<Rightarrow> inbound \<Rightarrow> event list" where
  "on_message p self m =
     (case loaded m of
        Inl e \<Rightarrow> message_except e
      | Inr data \<Rightarrow>
          (case handle_message p self data (reply_fails m) of
             (evs, Inl e) \<Rightarrow> evs @ message_except e
           | (evs, Inr u) \<Rightarrow> evs))"

fun each_message :: "process \<Rightarrow> WebSocketRuntime \<Rightarrow> inbound list \<Rightarrow> event list" where
  "each_message p self [] = []"
| "each_message p self (m # ms) = on_message p self m @ each_message p self ms"

text \<open>
  \<open>fallback_to_http\<close>: the import runs the module \<open>bootstrap\<close> under the name
  \<open>bootstrap\<close>.
\<close>

definition fallback_to_http :: "process \<Rightarrow> poll_cycle list \<Rightarrow> event list" where
  "fallback_to_http p cs =
     [Print Stdout [S ''Falling back to HTTP runtime...''], Import ''bootstrap'']
     @ bootstrap_module ''bootstrap'' p cs"

text \<open>
  \<open>connect\<close> and \<open>handle_reconnect\<close> call each other. Each call of \<open>connect\<close> takes
  the next connection attempt of the Runtime API's script; a run that needs more
  attempts than the script holds has no result. The result is the run and the runtime
  object when the outermost call returns.
\<close>

function connect ::
    "process \<Rightarrow> poll_cycle list \<Rightarrow> WebSocketRuntime \<Rightarrow> attempt list
       \<Rightarrow> (event list \<times> WebSocketRuntime) option"
  and handle_reconnect ::
    "process \<Rightarrow> poll_cycle list \<Rightarrow> WebSocketRuntime \<Rightarrow> attempt list
       \<Rightarrow> (event list \<times> WebSocketRuntime) option"
where
  "connect p cs self [] = None"
| "connect p cs self (a # script) =
     (let connecting =
            [Print Stdout [S ''Connecting to WebSocket: '', S (ws_url (env p))],
             WsConnect (ws_url (env p))]
      in case a of
           ConnectFails e \<Rightarrow>
             (case handle_reconnect p cs (self\<lparr>is_connected := False\<rparr>) script of
                None \<Rightarrow> None
              | Some (evs, self') \<Rightarrow>
                  Some (connecting
                          @ [Print Stderr [S ''WebSocket connection failed: '', S (exc_str e)]]
                          @ evs, self'))
         | Connects s \<Rightarrow>
             (let self1 = self\<lparr>websocket := Some s, is_connected := True,
                                 reconnect_attempts := 0\<rparr>;
                  served = connecting @ [Print Stdout [S ''WebSocket connected'']]
                             @ fst (register p self1 (register_fails s))
                             @ each_message p self1 (inbounds s)
              in case ending s of
                   IteratorEnds \<Rightarrow> Some (served, self1)
                 | ConnectionClosed \<Rightarrow>
                     (case handle_reconnect p cs (self1\<lparr>is_connected := False\<rparr>) script of
                        None \<Rightarrow> None
                      | Some (evs, self') \<Rightarrow>
                          Some (served @ [Print Stdout [S ''WebSocket connection closed'']]
                                  @ evs, self'))
                 | LoopError e \<Rightarrow>
                     (case handle_reconnect p cs (self1\<lparr>is_connected := False\<rparr>) script of
                        None \<Rightarrow> None
                      | Some (evs, self') \<Rightarrow>
                          Some (served @ [Print Stderr [S ''WebSocket error: '', S (exc_str e)]]
                                  @ evs, self'))))"
| "handle_reconnect p cs self script =
     (if reconnect_attempts self < max_reconnect_attempts self \<and> \<not> should_stop self then
        (let self1 = self\<lparr>reconnect_attempts := reconnect_attempts self + 1\<rparr> in
         case connect p cs self1 script of
           None \<Rightarrow> None
         | Some (evs, self2) \<Rightarrow>
             Some ([Print Stdout
                      [S ''Attempting to reconnect ('', V (PInt (reconnect_attempts self1)),
                       S ''/'', V (PInt (max_reconnect_attempts self1)), S '') in '',
                       V (PFloat (Finite (reconnect_delay self1))), S ''s''],
                    Sleep (reconnect_delay self1)] @ evs,
                   self2\<lparr>reconnect_delay := min (reconnect_delay self2 * 2) 30\<rparr>))
      else
        Some (Print Stderr [S ''Max reconnection attempts reached, falling back to HTTP'']
                # fallback_to_http p cs, self))"
  by pat_completeness auto
termination
  by (relation "measure (\<lambda>x. case x of
         Inl (p, cs, self, script) \<Rightarrow> 2 * length script
       | Inr (p, cs, self, script) \<Rightarrow> 2 * length script + 1)") auto

definition shutdown :: "WebSocketRuntime \<Rightarrow> event list \<times> WebSocketRuntime" where
  "shutdown self =
     ([Print Stdout [S ''WebSocket runtime shutdown complete'']], self\<lparr>should_stop := True\<rparr>)"

text \<open>\<open>main\<close> of the WebSocket runtime, until \<open>connect\<close> returns.\<close>

definition ws_main ::
  "process \<Rightarrow> poll_cycle list \<Rightarrow> attempt list \<Rightarrow> (event list \<times> WebSocketRuntime) option" where
  "ws_main p cs script =
     (case connect p cs new_runtime script of
        None \<Rightarrow> None
      | Some (evs, self) \<Rightarrow>
          Some (Print Stdout [S ''Lambda runtime started with WebSocket support''] # evs, self))"

fun slept :: "event list \<Rightarrow> real list" where
  "slept [] = []"
| "slept (Sleep d # evs) = d # slept evs"
| "slept (e # evs) = slept evs"


text \<open>What a run sent: the frames handed to the socket, and the POSTs to the Runtime API.\<close>

fun sent :: "event list \<Rightarrow> pyval list" where
  "sent [] = []"
| "sent (WsSend text # evs) = text # sent evs"
| "sent (e # evs) = sent evs"

fun http_posts :: "event list \<Rightarrow> (string \<times> pyval) list" where
  "http_posts [] = []"
| "http_posts (HttpPost url hs data # evs) = (url, data) # http_posts evs"
| "http_posts (e # evs) = http_posts evs"

text \<open>The events of the poll loop, and the events of a reconnection.\<close>

fun is_poll :: "event \<Rightarrow> bool" where
  "is_poll (HttpGet url hs) = True"
| "is_poll (HttpPost url hs data) = True"
| "is_poll (HandlerCall ev context) = True"
| "is_poll _ = False"

fun is_reconnection :: "event \<Rightarrow> bool" where
  "is_reconnection (WsConnect url) = True"
| "is_reconnection (Sleep d) = True"
| "is_reconnection (Import m) = True"
| "is_reconnection _ = False"

section \<open>Concrete inputs\<close>

text \<open>
  \<open>tests/test_runtime.py\<close> posts \<open>{"test": "data"}\<close> with the headers
  \<open>x-request-id: test-123\<close> and \<open>x-deadline-ms: 3000\<close> to a handler that returns
  its event. The clock readings and the tracebacks are examples.
\<close>

definition echo_handler :: handler_fn where
  "echo_handler ev context = Inr ev"

definition test_runtime :: RuntimeInterface where
  "test_runtime = \<lparr>handler = Some echo_handler, is_shutting_down = False\<rparr>"

definition test_payload :: pyval where
  "test_payload = PDict [(''test'', PStr ''data'')]"

definition test_request :: request where
  "test_request = \<lparr>x_deadline_ms = Some ''3000'', x_request_id = Some ''test-123'',
                    get_json = Inr test_payload\<rparr>"

definition test_surroundings :: surroundings where
  "test_surroundings =
     \<lparr>now_start = 1000, now_context = 2005 / 2, now_completed = 1004, now_failed = 1005,
      format_exception = (\<lambda>e. [exc_type e @ '': '' @ exc_str e])\<rparr>"

definition marked_result :: pyval where
  "marked_result =
     PDict [(''base64'', PBool True), (''data'', PStr ''eyJ0ZXN0IjogImRhdGEifQ=='')]"

text \<open>
  The process of the two bootstrap runtimes in the examples below: the function
  \<open>echo\<close> with the default Runtime API address, an invocation \<open>req-1\<close> carrying the
  test payload, and the ways the Runtime API can fail.
\<close>

definition test_environ :: environ where
  "test_environ =
     \<lparr>AWS_LAMBDA_RUNTIME_API = None, AWS_LAMBDA_FUNCTION_NAME = Some ''echo'',
      AWS_LAMBDA_FUNCTION_VERSION = None, AWS_LAMBDA_FUNCTION_MEMORY_SIZE = Some ''128'',
      AWS_LAMBDA_LOG_GROUP_NAME = None, AWS_LAMBDA_LOG_STREAM_NAME = None,
      LAMBDAH_INSTANCE_ID = None\<rparr>"

definition test_process :: process where
  "test_process =
     \<lparr>env = test_environ, lambda_handler = echo_handler,
      format_exc = (\<lambda>e. [exc_type e @ '': '' @ exc_str e])\<rparr>"

definition bytes_handler :: handler_fn where
  "bytes_handler ev context = Inr (PBytes [0x68, 0x69])"

definition test_invocation :: invocation where
  "test_invocation =
     \<lparr>requestId = Some ''req-1'', deadline = Some ''1762272000000'',
      invokedFunctionArn = None, traceId = None, payload = test_payload\<rparr>"

definition timed_out :: pyexc where
  "timed_out = raise_exc ''URLError'' ''<urlopen error timed out>''"

definition lost_post_cycle :: poll_cycle where
  "lost_post_cycle =
     \<lparr>fetched = Inr test_invocation, response_post = Some timed_out, error_post = None\<rparr>"

definition quiet_cycle :: poll_cycle where
  "quiet_cycle = \<lparr>fetched = Inr test_invocation, response_post = None, error_post = None\<rparr>"

definition test_message :: "(string \<times> pyval) list" where
  "test_message =
     [(''type'', PStr ''invocation''), (''request_id'', PStr ''req-1''),
      (''payload'', test_payload), (''deadline_ms'', PInt 1762272000000)]"

definition test_session :: session where
  "test_session = \<lparr>register_fails = None, inbounds = [], ending = ConnectionClosed\<rparr>"

definition connected_runtime :: WebSocketRuntime where
  "connected_runtime = new_runtime\<lparr>websocket := Some test_session, is_connected := True\<rparr>"

definition closed_socket :: pyexc where
  "closed_socket = raise_exc ''ConnectionClosedError'' ''no close frame received or sent''"

definition bytes_process :: process where
  "bytes_process = test_process\<lparr>lambda_handler := bytes_handler\<rparr>"

section \<open>Properties of the Push transport\<close>

lemma serve_all_keeps_flag:
  "is_shutting_down self \<Longrightarrow> is_shutting_down (serve_all self ops)"
proof (induction ops arbitrary: self)
  case Nil
  then show ?case by (simp add: serve_all_def)
next
  case (Cons a ops)
  have "is_shutting_down (serve self a)"
    using Cons.prems by (cases a) (simp_all add: handle_shutdown_def)
  then show ?case
    using Cons.IH [of "serve self a"] by (simp add: serve_all_def)
qed

lemma shutting_down_serializable:
  "respond 503 (envelope 503 shutting_down_body) =
     Inr \<lparr>http_status = 503, json = envelope 503 shutting_down_body\<rparr>"
  by (simp add: respond_def jsonify_def envelope_def shutting_down_body_def
      visit_order_def key_order_def)

text \<open>
  C6. Once \<open>handle_shutdown\<close> has set the flag, whatever signals and requests follow,
  every \<open>POST /invoke\<close>, for any headers and payload, answers with status 503 and the
  body \<open>{errorMessage: "Service is shutting down", errorType: "ServiceUnavailable"}\<close>,
  and the run of the request holds no call of the handler.
\<close>

theorem invoke_after_shutdown:
  "invoke (serve_all (snd (handle_shutdown self)) ops) w req =
     ([], Inr \<lparr>http_status = 503,
               json = PDict [(''status_code'', PInt 503),
                             (''body'', PDict [(''errorMessage'', PStr ''Service is shutting down''),
                                              (''errorType'', PStr ''ServiceUnavailable'')]),
                             (''logs'', PList [])]\<rparr>)
   \<and> handler_calls (fst (invoke (serve_all (snd (handle_shutdown self)) ops) w req)) = []"
proof -
  have "is_shutting_down (snd (handle_shutdown self))"
    by (simp add: handle_shutdown_def)
  then have "is_shutting_down (serve_all (snd (handle_shutdown self)) ops)"
    by (rule serve_all_keeps_flag)
  then have "invoke (serve_all (snd (handle_shutdown self)) ops) w req =
      ([], Inr \<lparr>http_status = 503, json = envelope 503 shutting_down_body\<rparr>)"
    by (simp add: invoke_def shutting_down_serializable)
  then show ?thesis
    by (simp add: envelope_def shutting_down_body_def handler_calls_def)
qed

lemma first_error_None: "first_error es = None \<longleftrightarrow> (\<forall>e \<in> set es. e = None)"
  by (induction es rule: first_error.induct) auto

lemma set_visit_order: "set (visit_order sk kvs) = set kvs"
  by (simp add: visit_order_def)

lemma json_error_None_any: "json_error sk v = None \<longleftrightarrow> json_error sk' v = None"
proof (induction v)
  case (PList xs)
  then show ?case by (auto simp: first_error_None)
next
  case (PDict kvs)
  then show ?case
    by (fastforce simp: first_error_None set_visit_order)
qed simp_all

lemma envelope_error: "json_error sk (envelope code b) = json_error sk b"
proof (cases sk)
  case True
  then show ?thesis
    by (cases "json_error True b") (simp_all add: envelope_def visit_order_def key_order_def)
next
  case False
  then show ?thesis
    by (cases "json_error False b") (simp_all add: envelope_def visit_order_def key_order_def)
qed

lemma respond_envelope:
  "json_serializable b \<Longrightarrow>
     respond code (envelope code' b) = Inr \<lparr>http_status = code, json = envelope code' b\<rparr>"
proof -
  assume "json_serializable b"
  then have "json_error True b = None"
    using json_error_None_any [of True b False] by (simp add: json_serializable_def)
  then show ?thesis
    by (simp add: respond_def jsonify_def envelope_error)
qed

lemma classify_not_bytes:
  "\<forall>b. result \<noteq> PBytes b \<Longrightarrow> classify_result result = respond 200 (envelope 200 result)"
  by (cases result) (simp_all add: classify_result_def respond_marked_def respond_default_def)

lemma serializable_not_bytes: "json_serializable v \<Longrightarrow> v \<noteq> PBytes b"
  by (auto simp: json_serializable_def)

lemma invoke_handler_calls:
  assumes "\<not> is_shutting_down self" and "read_deadline req = Inr d"
    and "get_json req = Inr ev" and "handler self = Some h"
  shows "handler_calls (fst (invoke self w req)) =
           [HandlerCall ev (make_context w d (read_request_id req))]"
proof (cases "h ev (make_context w d (read_request_id req))")
  case (Inl e)
  with assms show ?thesis
    by (simp add: invoke_def invoke_try_def call_handler_def invoke_except_def
        handler_calls_def log_def Let_def)
next
  case (Inr result)
  with assms show ?thesis
    by (cases "classify_result result")
       (simp_all add: invoke_def invoke_try_def call_handler_def invoke_except_def
        handler_calls_def log_def Let_def)
qed

text \<open>
  C7. For a request that reaches the handler, the \<open>deadlineMs\<close> of the context the
  handler is called with is \<open>D - E\<close> when the header \<open>x-deadline-ms\<close> holds a deadline
  \<open>D > 0\<close>, where \<open>E\<close> is the time between the reading of the clock at the start of
  the request and the reading when the context is built, in whole milliseconds; it is
  \<open>0\<close> when the header is absent.
\<close>

theorem remaining_time:
  assumes "\<not> is_shutting_down self" and "handler self = Some h" and "get_json req = Inr ev"
  shows "(x_deadline_ms req = Some s \<and> py_int_str s = Inr D \<and> 0 < D \<longrightarrow>
            handler_calls (fst (invoke self w req)) =
              [HandlerCall ev
                 (PDict [(''deadlineMs'', PInt (D - py_int (now_context w - now_start w))),
                         (''requestId'', PStr (read_request_id req))])])
       \<and> (x_deadline_ms req = None \<longrightarrow>
            handler_calls (fst (invoke self w req)) =
              [HandlerCall ev
                 (PDict [(''deadlineMs'', PInt 0),
                         (''requestId'', PStr (read_request_id req))])])"
proof (intro conjI impI)
  assume h: "x_deadline_ms req = Some s \<and> py_int_str s = Inr D \<and> 0 < D"
  then have "read_deadline req = Inr D" by (simp add: read_deadline_def)
  from invoke_handler_calls [OF assms(1) this assms(3) assms(2)] h
  show "handler_calls (fst (invoke self w req)) =
      [HandlerCall ev
         (PDict [(''deadlineMs'', PInt (D - py_int (now_context w - now_start w))),
                 (''requestId'', PStr (read_request_id req))])]"
    by (simp add: make_context_def remaining_ms_def)
next
  assume "x_deadline_ms req = None"
  then have "read_deadline req = Inr 0" by (simp add: read_deadline_def)
  from invoke_handler_calls [OF assms(1) this assms(3) assms(2)]
  show "handler_calls (fst (invoke self w req)) =
      [HandlerCall ev
         (PDict [(''deadlineMs'', PInt 0), (''requestId'', PStr (read_request_id req))])]"
    by (simp add: make_context_def remaining_ms_def)
qed

lemma py_int_str_3000: "py_int_str ''3000'' = Inr 3000"
  by code_simp

theorem remaining_time_witness:
  "\<not> is_shutting_down test_runtime \<and> handler test_runtime = Some echo_handler
   \<and> get_json test_request = Inr test_payload
   \<and> x_deadline_ms test_request = Some ''3000'' \<and> py_int_str ''3000'' = Inr 3000
   \<and> (0::int) < 3000
   \<and> handler_calls (fst (invoke test_runtime test_surroundings test_request)) =
        [HandlerCall test_payload
           (PDict [(''deadlineMs'', PInt 2998), (''requestId'', PStr ''test-123'')])]
   \<and> x_deadline_ms (test_request\<lparr>x_deadline_ms := None\<rparr>) = None
   \<and> handler_calls (fst (invoke test_runtime test_surroundings
          (test_request\<lparr>x_deadline_ms := None\<rparr>))) =
        [HandlerCall test_payload
           (PDict [(''deadlineMs'', PInt 0), (''requestId'', PStr ''test-123'')])]"
proof -
  have a: "\<not> is_shutting_down test_runtime" "handler test_runtime = Some echo_handler"
    by (simp_all add: test_runtime_def)
  have b: "get_json test_request = Inr test_payload"
    "get_json (test_request\<lparr>x_deadline_ms := None\<rparr>) = Inr test_payload"
    "x_deadline_ms test_request = Some ''3000''"
    by (simp_all add: test_request_def)
  have e: "py_int (now_context test_surroundings - now_start test_surroundings) = 2"
    by (simp add: test_surroundings_def py_int_def)
  have r: "read_request_id test_request = ''test-123''"
    "read_request_id (test_request\<lparr>x_deadline_ms := None\<rparr>) = ''test-123''"
    by (simp_all add: read_request_id_def test_request_def)
  from remaining_time [OF a(1) a(2) b(1), of "''3000''" 3000 test_surroundings]
       remaining_time [OF a(1) a(2) b(2), of "''3000''" 3000 test_surroundings]
  show ?thesis
    using a b e r py_int_str_3000 by simp
qed


text \<open>
  C2. With a handler that returns its event, a \<open>POST /invoke\<close> whose body is a
  JSON-serializable payload \<open>P\<close> is answered with status 200 and the envelope
  \<open>{status_code: 200, body: P, logs: []}\<close>: the body of the envelope is \<open>P\<close> itself.
  The server is not shutting down and the deadline header, if any, is an integer.
\<close>

theorem echo_roundtrip:
  assumes "\<not> is_shutting_down self" and "handler self = Some echo_handler"
    and "read_deadline req = Inr d" and "get_json req = Inr P" and "json_serializable P"
  shows "snd (invoke self w req) =
           Inr \<lparr>http_status = 200,
                json = PDict [(''status_code'', PInt 200), (''body'', P), (''logs'', PList [])]\<rparr>"
proof -
  have "\<forall>b. P \<noteq> PBytes b"
    using assms(5) serializable_not_bytes by blast
  then have "classify_result P = Inr \<lparr>http_status = 200, json = envelope 200 P\<rparr>"
    using assms(5) by (simp add: classify_not_bytes respond_envelope)
  with assms(1-4) show ?thesis
    by (simp add: invoke_def invoke_try_def call_handler_def Let_def envelope_def
        echo_handler_def)
qed

theorem echo_roundtrip_witness:
  "\<not> is_shutting_down test_runtime
   \<and> handler test_runtime = Some echo_handler
   \<and> read_deadline test_request = Inr 3000
   \<and> get_json test_request = Inr test_payload
   \<and> json_serializable test_payload
   \<and> snd (invoke test_runtime test_surroundings test_request) =
        Inr \<lparr>http_status = 200,
             json = PDict [(''status_code'', PInt 200),
                           (''body'', test_payload),
                           (''logs'', PList [])]\<rparr>"
proof -
  have a: "\<not> is_shutting_down test_runtime"
    "handler test_runtime = Some echo_handler"
    by (simp_all add: test_runtime_def)
  have b: "read_deadline test_request = Inr 3000"
    by (simp add: read_deadline_def test_request_def py_int_str_3000)
  have c: "get_json test_request = Inr test_payload"
    by (simp add: test_request_def)
  have d: "json_serializable test_payload"
    by (simp add: test_payload_def json_serializable_def visit_order_def)
  from echo_roundtrip [OF a b c d, of test_surroundings] a b c d
  show ?thesis by simp
qed

text \<open>
  C9. For a handler result that is not \<open>bytes\<close>, the return taken for a dictionary with
  a truthy \<open>base64\<close> entry is the return of the \<open>else\<close> branch: the classification
  gives what the default branch gives whatever the marker says, and for a serializable
  result that is the envelope \<open>{status_code: 200, body: result, logs: []}\<close> with
  status 200.
\<close>

theorem marker_branch_same_as_default:
  assumes "\<forall>b. result \<noteq> PBytes b"
  shows "respond_marked result = respond_default result
       \<and> classify_result result = respond_default result
       \<and> (json_serializable result \<longrightarrow>
            classify_result result =
              Inr \<lparr>http_status = 200,
                   json = PDict [(''status_code'', PInt 200), (''body'', result),
                                 (''logs'', PList [])]\<rparr>)"
  using assms
  by (simp add: classify_not_bytes respond_marked_def respond_default_def respond_envelope
      envelope_def [symmetric])

theorem marker_branch_same_as_default_witness:
  "(\<forall>b. marked_result \<noteq> PBytes b) \<and> has_base64_marker marked_result
   \<and> json_serializable marked_result
   \<and> respond_marked marked_result = respond_default marked_result
   \<and> classify_result marked_result = respond_default marked_result
   \<and> classify_result marked_result =
        Inr \<lparr>http_status = 200,
             json = PDict [(''status_code'', PInt 200), (''body'', marked_result),
                           (''logs'', PList [])]\<rparr>"
proof -
  have a: "\<forall>b. marked_result \<noteq> PBytes b"
    by (simp add: marked_result_def)
  have b: "has_base64_marker marked_result"
    by (simp add: marked_result_def has_base64_marker_def dict_get_def)
  have c: "json_serializable marked_result"
    by (simp add: marked_result_def json_serializable_def visit_order_def)
  from marker_branch_same_as_default [OF a] a b c show ?thesis by blast
qed

text \<open>
  C8. When the header \<open>x-deadline-ms\<close> is present and \<open>int\<close> refuses it, the handler
  is not called and no response with status 500 is made: the only response such a request
  can get is the 503 of a server that is shutting down. On a server that is not shutting
  down the \<open>ValueError\<close> of the conversion leaves the view function before anything is
  logged. The header \<open>abc\<close> is such an input.
\<close>

theorem invalid_deadline_escapes:
  assumes "x_deadline_ms req = Some s" and "py_int_str s = Inl e"
  shows "handler_calls (fst (invoke self w req)) = []
       \<and> (\<forall>resp. snd (invoke self w req) = Inr resp \<longrightarrow> http_status resp = 503)
       \<and> exc_type e = ''ValueError''
       \<and> (\<not> is_shutting_down self \<longrightarrow> invoke self w req = ([], Inl e))"
proof -
  have "read_deadline req = Inl e"
    using assms by (simp add: read_deadline_def)
  moreover have "exc_type e = ''ValueError''"
    using assms(2)
    by (auto simp: py_int_str_def scan_digits_def invalid_literal_def exceeds_limit_def
        raise_exc_def split: list.splits if_splits option.splits sum.splits)
  ultimately show ?thesis
    by (simp add: invoke_def handler_calls_def shutting_down_serializable)
qed

lemma py_int_str_abc:
  "py_int_str ''abc'' = Inl (invalid_literal ''abc'')"
  by code_simp

theorem invalid_deadline_escapes_witness:
  "x_deadline_ms (test_request\<lparr>x_deadline_ms := Some ''abc''\<rparr>) = Some ''abc''
   \<and> py_int_str ''abc'' = Inl (invalid_literal ''abc'')
   \<and> exc_str (invalid_literal ''abc'') =
       ''invalid literal for int() with base 10: '' @ [CHR 0x27] @ ''abc'' @ [CHR 0x27]
   \<and> \<not> is_shutting_down test_runtime
   \<and> invoke test_runtime test_surroundings (test_request\<lparr>x_deadline_ms := Some ''abc''\<rparr>) =
       ([], Inl (invalid_literal ''abc''))"
proof -
  have a: "x_deadline_ms (test_request\<lparr>x_deadline_ms := Some ''abc''\<rparr>) = Some ''abc''"
    by simp
  have b: "\<not> is_shutting_down test_runtime"
    by (simp add: test_runtime_def)
  have c: "exc_str (invalid_literal ''abc'') =
      ''invalid literal for int() with base 10: '' @ [CHR 0x27] @ ''abc'' @ [CHR 0x27]"
    by (simp add: invalid_literal_def raise_exc_def py_repr_def repr_quote_def repr_char_def
        is_printable_def)
  from invalid_deadline_escapes [OF a py_int_str_abc, of test_runtime test_surroundings]
    a b c py_int_str_abc
  show ?thesis by simp
qed

section \<open>Properties of the Poll and Stream transports\<close>

lemma send_returns: "snd (send self message fails) = Inr ()"
  by (simp add: send_def split: prod.splits sum.splits)

lemma handle_invocation_returns: "snd (handle_invocation p self message fails) = Inr ()"
proof -
  obtain evs r where t: "invocation_try p self message fails = (evs, r)"
    by (cases "invocation_try p self message fails")
  show ?thesis
  proof (cases r)
    case (Inl error)
    obtain evs' out where s: "send self (error_frame p (dict_get message ''request_id'') error) fails = (evs', out)"
      by (cases "send self (error_frame p (dict_get message ''request_id'') error) fails")
    then have "out = Inr ()" using send_returns [of self "error_frame p (dict_get message ''request_id'') error" fails] by simp
    with t Inl s show ?thesis by (simp add: handle_invocation_def Let_def)
  next
    case (Inr u)
    with t show ?thesis by (simp add: handle_invocation_def Let_def)
  qed
qed

text \<open>
  C1. When the first connection attempt and the ten reconnection attempts all fail,
  \<open>handle_reconnect\<close> sleeps ten times, each time for the initial delay of one second:
  the doubling of line 174 stands after the awaited \<open>connect\<close>, which holds the next
  attempts, so it runs only while the calls return, after the fallback. The delay is 30
  when the outermost \<open>connect\<close> returns, and no sleep has used it.
\<close>

theorem backoff_sleeps:
  "map_option (\<lambda>r. (slept (fst r), reconnect_delay (snd r)))
     (ws_main p cs (replicate 11 (ConnectFails e))) =
   Some ([1, 1, 1, 1, 1, 1, 1, 1, 1, 1], 30)"
  by (simp add: ws_main_def new_runtime_def eval_nat_numeral fallback_to_http_def
      bootstrap_module_def)

text \<open>
  C5. When the attempt count is not below the maximum, or a stop was requested,
  \<open>handle_reconnect\<close> prints its two lines and imports \<open>bootstrap\<close>, and returns.
  The import runs the module under the name \<open>bootstrap\<close>, so the guard on
  \<open>__name__\<close> keeps \<open>main\<close> from running: whatever invocations the Runtime API holds,
  the run has no long poll, no POST and no call of the handler.
\<close>

theorem fallback_imports_without_polling:
  assumes "max_reconnect_attempts self \<le> reconnect_attempts self \<or> should_stop self"
  shows "handle_reconnect p cs self script =
           Some ([Print Stderr [S ''Max reconnection attempts reached, falling back to HTTP''],
                  Print Stdout [S ''Falling back to HTTP runtime...''],
                  Import ''bootstrap''], self)
       \<and> map_option (\<lambda>r. filter is_poll (fst r)) (handle_reconnect p cs self script) = Some []"
  using assms by (auto simp: fallback_to_http_def bootstrap_module_def)

theorem fallback_imports_without_polling_witness:
  "(max_reconnect_attempts (new_runtime\<lparr>reconnect_attempts := 10\<rparr>)
      \<le> reconnect_attempts (new_runtime\<lparr>reconnect_attempts := 10\<rparr>)
    \<or> should_stop (new_runtime\<lparr>reconnect_attempts := 10\<rparr>))
   \<and> handle_reconnect test_process [quiet_cycle] (new_runtime\<lparr>reconnect_attempts := 10\<rparr>) [] =
       Some ([Print Stderr [S ''Max reconnection attempts reached, falling back to HTTP''],
              Print Stdout [S ''Falling back to HTTP runtime...''],
              Import ''bootstrap''], new_runtime\<lparr>reconnect_attempts := 10\<rparr>)
   \<and> should_stop (snd (shutdown new_runtime))
   \<and> handle_reconnect test_process [quiet_cycle] (snd (shutdown new_runtime)) [] =
       Some ([Print Stderr [S ''Max reconnection attempts reached, falling back to HTTP''],
              Print Stdout [S ''Falling back to HTTP runtime...''],
              Import ''bootstrap''], snd (shutdown new_runtime))
   \<and> filter is_poll (main test_process [quiet_cycle]) \<noteq> []"
proof -
  have c: "should_stop (snd (shutdown new_runtime))"
    by (simp add: shutdown_def)
  then have d: "max_reconnect_attempts (snd (shutdown new_runtime))
      \<le> reconnect_attempts (snd (shutdown new_runtime))
    \<or> should_stop (snd (shutdown new_runtime))"
    by simp
  have a: "max_reconnect_attempts (new_runtime\<lparr>reconnect_attempts := 10\<rparr>)
      \<le> reconnect_attempts (new_runtime\<lparr>reconnect_attempts := 10\<rparr>)
    \<or> should_stop (new_runtime\<lparr>reconnect_attempts := 10\<rparr>)"
    by (simp add: new_runtime_def)
  have b: "filter is_poll (main test_process [quiet_cycle]) \<noteq> []"
    by (simp add: main_def main_cycle_def get_next_invocation_def quiet_cycle_def)
  from fallback_imports_without_polling [OF a, of test_process "[quiet_cycle]" "[]"]
    fallback_imports_without_polling [OF d, of test_process "[quiet_cycle]" "[]"] a b c
  show ?thesis by simp
qed

lemma sent_append: "sent (xs @ ys) = sent xs @ sent ys"
  by (induction xs rule: sent.induct) simp_all

lemma http_posts_append: "http_posts (xs @ ys) = http_posts xs @ http_posts ys"
  by (induction xs rule: http_posts.induct) simp_all

lemma json_dumps_Inr: "json_dumps v = Inr d \<Longrightarrow> d = v \<and> json_serializable v"
  by (auto simp: json_dumps_def json_serializable_def split: option.splits)

lemma json_dumps_serializable: "json_serializable v \<Longrightarrow> json_dumps v = Inr v"
  by (simp add: json_dumps_def json_serializable_def)

lemma send_not_connected:
  "websocket self = None \<or> \<not> is_connected self \<Longrightarrow>
     send self message fails =
       ([Print Stderr [S ''WebSocket not connected, cannot send message'']], Inr ())"
  by (auto simp: send_def)

lemma send_raises:
  "websocket self \<noteq> None \<Longrightarrow> is_connected self \<Longrightarrow> json_serializable message \<Longrightarrow>
     send self message (Some e) =
       ([WsSend message, Print Stderr [S ''Failed to send WebSocket message: '', S (exc_str e)]],
        Inr ())"
  by (simp add: send_def send_try_def json_dumps_serializable)

lemma send_no_reconnection:
  "send self message fails = (evs, out) \<Longrightarrow> filter is_reconnection evs = []"
  by (auto simp: send_def send_try_def split: sum.splits option.splits if_splits)

lemma invocation_no_reconnection:
  "filter is_reconnection (fst (handle_invocation p self message fails)) = []"
proof -
  obtain evs r where t: "invocation_try p self message fails = (evs, r)"
    by (cases "invocation_try p self message fails")
  have "filter is_reconnection evs = []"
    using t
    by (auto simp: invocation_try_def Let_def split: sum.splits prod.splits
        dest: send_no_reconnection)
  then show ?thesis
    using t
    by (auto simp: handle_invocation_def Let_def split: sum.splits prod.splits
        dest: send_no_reconnection)
qed

lemma slept_append: "slept (xs @ ys) = slept xs @ slept ys"
  by (induction xs rule: slept.induct) simp_all

lemma quiet_not_slept: "filter is_reconnection evs = [] \<Longrightarrow> slept evs = []"
  by (induction evs rule: slept.induct) (simp_all split: if_splits)

lemma send_quiet: "filter is_reconnection (fst (send self message fails)) = []"
  by (cases "send self message fails") (simp add: send_no_reconnection)

lemma handle_message_quiet:
  "filter is_reconnection (fst (handle_message p self data fails)) = []"
proof (cases data)
  case (PDict message)
  then show ?thesis
    by (simp add: handle_message_def Let_def invocation_no_reconnection send_quiet)
qed (simp_all add: handle_message_def)

lemma on_message_quiet: "filter is_reconnection (on_message p self m) = []"
proof (cases "loaded m")
  case (Inl e)
  then show ?thesis by (simp add: on_message_def message_except_def)
next
  case (Inr data)
  obtain evs out where h: "handle_message p self data (reply_fails m) = (evs, out)"
    by (cases "handle_message p self data (reply_fails m)")
  then have "filter is_reconnection evs = []"
    using handle_message_quiet [of p self data "reply_fails m"] by simp
  with Inr h show ?thesis
    by (cases out) (simp_all add: on_message_def message_except_def)
qed

lemma each_message_quiet: "filter is_reconnection (each_message p self ms) = []"
  by (induction ms) (simp_all add: on_message_quiet)

lemma register_quiet: "filter is_reconnection (fst (register p self fails)) = []"
  by (simp add: register_def send_quiet)

lemma register_not_slept: "slept (fst (register p self fails)) = []"
  by (rule quiet_not_slept) (rule register_quiet)

lemma each_message_not_slept: "slept (each_message p self ms) = []"
  by (rule quiet_not_slept) (rule each_message_quiet)

lemma every_sleep_is_the_first_delay:
  shows "connect p cs self script = Some (evs, self') \<longrightarrow>
      list_all (\<lambda>d. d = reconnect_delay self) (slept evs)"
    and "handle_reconnect p cs self script = Some (evs, self') \<longrightarrow>
      list_all (\<lambda>d. d = reconnect_delay self) (slept evs)"
proof (induction p cs self script and p cs self script arbitrary: evs self' and evs self'
    rule: connect_handle_reconnect.induct)
  case (1 p cs self)
  then show ?case by simp
next
  case (2 p cs self a script)
  show ?case
  proof (cases a)
    case (ConnectFails e)
    with 2(1) show ?thesis
      by (auto simp: slept_append simp del: handle_reconnect.simps split: option.splits)
  next
    case (Connects s)
    note closed = 2(2) [OF refl Connects refl refl]
    note failed = 2(3) [OF refl Connects refl refl]
    show ?thesis
    proof (cases "ending s")
      case IteratorEnds
      with Connects show ?thesis
        by (auto simp: Let_def slept_append register_not_slept each_message_not_slept)
    next
      case ConnectionClosed
      with Connects closed [OF ConnectionClosed] show ?thesis
        by (auto simp: Let_def slept_append register_not_slept each_message_not_slept
            simp del: handle_reconnect.simps split: option.splits)
    next
      case (LoopError e)
      with Connects failed [OF LoopError] show ?thesis
        by (auto simp: Let_def slept_append register_not_slept each_message_not_slept
            simp del: handle_reconnect.simps split: option.splits)
    qed
  qed
next
  case (3 p cs self script)
  then show ?case
    by (auto simp: slept_append fallback_to_http_def bootstrap_module_def Let_def
        simp del: connect.simps split: option.splits if_splits)
qed

text \<open>
  In every run of the WebSocket runtime, whatever the Runtime API does, each sleep lasts
  the initial delay of one second.
\<close>

lemma ws_main_sleeps_one_second:
  assumes "ws_main p cs script = Some (evs, self')"
  shows "list_all (\<lambda>d. d = 1) (slept evs)"
proof -
  from assms obtain evs0 where c: "connect p cs new_runtime script = Some (evs0, self')"
    and e: "evs = Print Stdout [S ''Lambda runtime started with WebSocket support''] # evs0"
    by (auto simp: ws_main_def split: option.splits)
  from every_sleep_is_the_first_delay(1) [of p cs new_runtime script evs0 self'] c
  have "list_all (\<lambda>d. d = 1) (slept evs0)"
    by (simp add: new_runtime_def)
  with e show ?thesis by simp
qed

text \<open>
  C10. \<open>send\<close> returns normally whatever the socket does, and so does
  \<open>handle_invocation\<close>. When the handler has returned a result and the socket is not
  connected, or \<open>websocket.send\<close> raises, the run of \<open>handle_invocation\<close> is: the line
  for the invocation, the call of the handler, at most one frame handed to the socket
  (the response), the line on the error stream, and the line \<open>Response posted for\<close>.
  There is no second send and no error frame, and no run of \<open>handle_invocation\<close>
  holds a connection attempt, a sleep or an import.
\<close>

theorem undelivered_response_is_dropped:
  assumes "lambda_handler p (dict_get message ''payload'') (stream_context p message) = Inr result"
    and "json_serializable (response_frame p (dict_get message ''request_id'') result)"
  shows "snd (send self frame fails) = Inr ()
       \<and> snd (handle_invocation p self message fails) = Inr ()
       \<and> (websocket self = None \<or> \<not> is_connected self \<longrightarrow>
            fst (handle_invocation p self message fails) =
              [Print Stdout [S ''Received invocation: '', V (dict_get message ''request_id'')],
               HandlerCall (dict_get message ''payload'') (stream_context p message),
               Print Stderr [S ''WebSocket not connected, cannot send message''],
               Print Stdout [S ''Response posted for: '', V (dict_get message ''request_id'')]])
       \<and> (websocket self \<noteq> None \<and> is_connected self \<and> fails = Some e \<longrightarrow>
            fst (handle_invocation p self message fails) =
              [Print Stdout [S ''Received invocation: '', V (dict_get message ''request_id'')],
               HandlerCall (dict_get message ''payload'') (stream_context p message),
               WsSend (response_frame p (dict_get message ''request_id'') result),
               Print Stderr [S ''Failed to send WebSocket message: '', S (exc_str e)],
               Print Stdout [S ''Response posted for: '', V (dict_get message ''request_id'')]])
       \<and> filter is_reconnection (fst (handle_invocation p self message fails)) = []"
proof (intro conjI impI)
  show "snd (send self frame fails) = Inr ()" by (rule send_returns)
  show "snd (handle_invocation p self message fails) = Inr ()"
    by (rule handle_invocation_returns)
  show "filter is_reconnection (fst (handle_invocation p self message fails)) = []"
    by (rule invocation_no_reconnection)
next
  assume "websocket self = None \<or> \<not> is_connected self"
  then show "fst (handle_invocation p self message fails) =
      [Print Stdout [S ''Received invocation: '', V (dict_get message ''request_id'')],
       HandlerCall (dict_get message ''payload'') (stream_context p message),
       Print Stderr [S ''WebSocket not connected, cannot send message''],
       Print Stdout [S ''Response posted for: '', V (dict_get message ''request_id'')]]"
    using assms(1)
    by (simp add: handle_invocation_def invocation_try_def Let_def send_not_connected)
next
  assume "websocket self \<noteq> None \<and> is_connected self \<and> fails = Some e"
  then show "fst (handle_invocation p self message fails) =
      [Print Stdout [S ''Received invocation: '', V (dict_get message ''request_id'')],
       HandlerCall (dict_get message ''payload'') (stream_context p message),
       WsSend (response_frame p (dict_get message ''request_id'') result),
       Print Stderr [S ''Failed to send WebSocket message: '', S (exc_str e)],
       Print Stdout [S ''Response posted for: '', V (dict_get message ''request_id'')]]"
    using assms
    by (simp add: handle_invocation_def invocation_try_def Let_def send_raises)
qed

lemma test_response_frame:
  "response_frame test_process (dict_get test_message ''request_id'') test_payload =
     PDict [(''type'', PStr ''response''), (''request_id'', PStr ''req-1''),
            (''payload'', PDict [(''test'', PStr ''data'')]),
            (''headers'', PDict [(''X-Amz-Executed-Version'', PStr ''1'')])]"
  by (simp add: response_frame_def test_message_def dict_get_def test_payload_def
      test_process_def test_environ_def FUNCTION_VERSION_def)

theorem undelivered_response_is_dropped_witness:
  "lambda_handler test_process (dict_get test_message ''payload'')
      (stream_context test_process test_message) = Inr test_payload
   \<and> json_serializable
        (response_frame test_process (dict_get test_message ''request_id'') test_payload)
   \<and> websocket connected_runtime \<noteq> None \<and> is_connected connected_runtime
   \<and> handle_invocation test_process connected_runtime test_message (Some closed_socket) =
       ([Print Stdout [S ''Received invocation: '', V (PStr ''req-1'')],
         HandlerCall test_payload (stream_context test_process test_message),
         WsSend (PDict [(''type'', PStr ''response''), (''request_id'', PStr ''req-1''),
                        (''payload'', PDict [(''test'', PStr ''data'')]),
                        (''headers'', PDict [(''X-Amz-Executed-Version'', PStr ''1'')])]),
         Print Stderr [S ''Failed to send WebSocket message: '',
                       S ''no close frame received or sent''],
         Print Stdout [S ''Response posted for: '', V (PStr ''req-1'')]], Inr ())
   \<and> websocket new_runtime = None
   \<and> handle_invocation test_process new_runtime test_message None =
       ([Print Stdout [S ''Received invocation: '', V (PStr ''req-1'')],
         HandlerCall test_payload (stream_context test_process test_message),
         Print Stderr [S ''WebSocket not connected, cannot send message''],
         Print Stdout [S ''Response posted for: '', V (PStr ''req-1'')]], Inr ())"
proof -
  have a: "lambda_handler test_process (dict_get test_message ''payload'')
      (stream_context test_process test_message) = Inr test_payload"
    by (simp add: test_process_def echo_handler_def test_message_def dict_get_def)
  have b: "json_serializable
        (response_frame test_process (dict_get test_message ''request_id'') test_payload)"
    by (simp add: test_response_frame json_serializable_def visit_order_def)
  have c: "websocket connected_runtime \<noteq> None" "is_connected connected_runtime"
    "websocket new_runtime = None"
    by (simp_all add: connected_runtime_def new_runtime_def)
  have d: "dict_get test_message ''request_id'' = PStr ''req-1''"
    "dict_get test_message ''payload'' = test_payload"
    "exc_str closed_socket = ''no close frame received or sent''"
    by (simp_all add: test_message_def dict_get_def closed_socket_def raise_exc_def)
  from undelivered_response_is_dropped [OF a b, of connected_runtime PNone "Some closed_socket"
      closed_socket]
    undelivered_response_is_dropped [OF a b, of new_runtime PNone None closed_socket]
  show ?thesis
    using a b c d test_response_frame by (simp add: prod_eq_iff)
qed

lemma strings_serializable: "first_error (map (json_error sk \<circ> PStr) ls) = None"
  by (induction ls) simp_all

lemma error_data_serializable: "json_dumps (error_data p error) = Inr (error_data p error)"
  by (simp add: json_dumps_def error_data_def visit_order_def strings_serializable)

lemma post_error_posts:
  "post_error p request_id error outcome =
     HttpPost (invocation_url (env p) request_id ''error'')
       (instance_header (env p) @ [(''Content-Type'', ''application/json'')])
       (error_data p error)
     # (case outcome of
          Some e \<Rightarrow> [Print Stderr [S ''Failed to post error: '', S (exc_str e)]]
        | None \<Rightarrow> [])"
  by (simp add: post_error_def error_data_serializable)

text \<open>
  C4, as the code has it. When the POST of a successful result fails, the exception of
  \<open>post_response\<close> is caught by the \<open>except\<close> of the handler call: the failure is
  printed on the error stream as a handler error and \<open>post_error\<close> posts it once to the
  error endpoint of the same request, with type \<open>Exception\<close> and the message
  \<open>Failed to post response: ...\<close>; if that POST fails too, this is only printed. The
  response is not posted again, nothing sleeps, and the next turn of the loop follows.
\<close>

theorem failed_response_post_is_reported:
  assumes "fetched c = Inr invocation"
    and "lambda_handler p (payload invocation) (poll_context p invocation) = Inr result"
    and "json_serializable result"
    and "response_post c = Some e"
  shows "main_loop p (c # cs) =
      [HttpGet (''http://'' @ RUNTIME_API (env p) @ ''/2018-06-01/runtime/invocation/next?fn=''
                 @ py_str (AWS_LAMBDA_FUNCTION_NAME (env p)))
         (instance_header (env p) @ [(''User-Agent'', ''lambda-runtime-interface-client'')]),
       Print Stdout [S ''Received invocation: '', V (opt_val (requestId invocation))],
       HandlerCall (payload invocation) (poll_context p invocation),
       HttpPost (invocation_url (env p) (requestId invocation) ''response'')
         (instance_header (env p) @ [(''Content-Type'', ''application/json'')]) result,
       Print Stderr [S ''Handler error: '', S (''Failed to post response: '' @ exc_str e)],
       HttpPost (invocation_url (env p) (requestId invocation) ''error'')
         (instance_header (env p) @ [(''Content-Type'', ''application/json'')])
         (error_data p (raise_exc ''Exception'' (''Failed to post response: '' @ exc_str e)))]
      @ (case error_post c of
           Some e' \<Rightarrow> [Print Stderr [S ''Failed to post error: '', S (exc_str e')]]
         | None \<Rightarrow> [])
      @ main_loop p cs"
  using assms
  by (simp add: main_cycle_def get_next_invocation_def dispatch_try_def post_response_def
      json_dumps_serializable post_error_posts Let_def raise_exc_def)

lemma test_urls:
  "invocation_url test_environ (Some ''req-1'') what =
     ''http://localhost:9001/2018-06-01/runtime/invocation/req-1/'' @ what"
  by (simp add: invocation_url_def test_environ_def RUNTIME_API_def
      py_str_def)

text \<open>
  C4 as stated says that nothing more is sent for the request. With the test invocation
  and a response POST that times out, two POSTs are made for \<open>req-1\<close>: the response
  and then the error.
\<close>

theorem lost_response_counterexample:
  "http_posts (main_cycle test_process lost_post_cycle) =
     [(''http://localhost:9001/2018-06-01/runtime/invocation/req-1/response'', test_payload),
      (''http://localhost:9001/2018-06-01/runtime/invocation/req-1/error'',
       PDict [(''errorType'', PStr ''Exception''),
              (''errorMessage'', PStr ''Failed to post response: <urlopen error timed out>''),
              (''stackTrace'',
               PList [PStr ''Exception: Failed to post response: <urlopen error timed out>''])])]
   \<and> http_posts (main_cycle test_process lost_post_cycle) \<noteq>
     [(''http://localhost:9001/2018-06-01/runtime/invocation/req-1/response'', test_payload)]"
  by (simp add: main_cycle_def get_next_invocation_def dispatch_try_def post_response_def
      post_error_posts Let_def lost_post_cycle_def test_urls json_dumps_def
      test_payload_def visit_order_def error_data_def raise_exc_def timed_out_def
      test_process_def echo_handler_def test_invocation_def)

theorem failed_response_post_is_reported_witness:
  "fetched lost_post_cycle = Inr test_invocation
   \<and> lambda_handler test_process (payload test_invocation)
        (poll_context test_process test_invocation) = Inr test_payload
   \<and> json_serializable test_payload
   \<and> response_post lost_post_cycle = Some timed_out
   \<and> error_post lost_post_cycle = None
   \<and> http_posts (main_loop test_process [lost_post_cycle]) =
       [(''http://localhost:9001/2018-06-01/runtime/invocation/req-1/response'', test_payload),
        (''http://localhost:9001/2018-06-01/runtime/invocation/req-1/error'',
         error_data test_process
           (raise_exc ''Exception'' ''Failed to post response: <urlopen error timed out>''))]
   \<and> slept (main_loop test_process [lost_post_cycle]) = []"
proof -
  have a: "fetched lost_post_cycle = Inr test_invocation"
    "response_post lost_post_cycle = Some timed_out" "error_post lost_post_cycle = None"
    by (simp_all add: lost_post_cycle_def)
  have b: "lambda_handler test_process (payload test_invocation)
        (poll_context test_process test_invocation) = Inr test_payload"
    by (simp add: test_process_def echo_handler_def test_invocation_def)
  have c: "json_serializable test_payload"
    by (simp add: test_payload_def json_serializable_def visit_order_def)
  have d: "env test_process = test_environ" "requestId test_invocation = Some ''req-1''"
    "exc_str timed_out = ''<urlopen error timed out>''"
    by (simp_all add: test_process_def test_invocation_def timed_out_def raise_exc_def)
  from failed_response_post_is_reported [OF a(1) b c a(2), of "[]"]
  show ?thesis
    using a b c d by (simp add: test_urls)
qed

lemma bytes_not_serializable:
  "json_dumps (PBytes b) = Inl (raise_exc ''TypeError'' ''Object of type bytes is not JSON serializable'')"
  by (simp add: json_dumps_def not_serializable_def)

lemma frame_with_bytes:
  "\<exists>e. json_dumps (response_frame p request_id (PBytes b)) = Inl e"
  by (cases "json_error False request_id")
     (simp_all add: json_dumps_def response_frame_def visit_order_def)

lemma send_bytes_frame:
  "sent (fst (send self (response_frame p request_id (PBytes b)) fails)) = []"
proof -
  obtain e where "json_dumps (response_frame p request_id (PBytes b)) = Inl e"
    using frame_with_bytes by blast
  then show ?thesis
    by (simp add: send_def send_try_def)
qed

lemma stream_bytes:
  assumes "lambda_handler p (dict_get message ''payload'') (stream_context p message)
             = Inr (PBytes b)"
  shows "sent (fst (handle_invocation p self message fails)) = []"
proof -
  obtain evs out where s:
    "send self (response_frame p (dict_get message ''request_id'') (PBytes b)) fails = (evs, out)"
    by (cases "send self (response_frame p (dict_get message ''request_id'') (PBytes b)) fails")
  have "out = Inr ()"
    using send_returns [of self "response_frame p (dict_get message ''request_id'') (PBytes b)" fails] s
    by simp
  moreover have "sent evs = []"
    using send_bytes_frame [of self p "dict_get message ''request_id''" b fails] s by simp
  ultimately show ?thesis
    using assms s
    by (simp add: handle_invocation_def invocation_try_def Let_def sent_append)
qed

lemma poll_bytes:
  assumes "fetched c = Inr invocation"
    and "lambda_handler p (payload invocation) (poll_context p invocation) = Inr (PBytes b)"
  shows "http_posts (main_cycle p c) =
      [(invocation_url (env p) (requestId invocation) ''error'',
        error_data p (raise_exc ''Exception''
          ''Failed to post response: Object of type bytes is not JSON serializable''))]"
  using assms
  by (cases "error_post c")
     (simp_all add: main_cycle_def get_next_invocation_def dispatch_try_def post_response_def
      bytes_not_serializable post_error_posts Let_def raise_exc_def)

lemma push_bytes:
  assumes "\<not> is_shutting_down self" and "read_deadline req = Inr d"
    and "get_json req = Inr ev" and "handler self = Some h"
    and "h ev (make_context w d (read_request_id req)) = Inr (PBytes b)"
  shows "snd (invoke self w req) =
      Inr \<lparr>http_status = 200,
           json = PDict [(''status_code'', PInt 200),
                         (''body'', PDict [(''base64'', PBool True),
                                          (''data'', PStr (b64encode b))]),
                         (''logs'', PList [])]\<rparr>"
proof -
  have "json_serializable (PDict [(''base64'', PBool True), (''data'', PStr (b64encode b))])"
    by (simp add: json_serializable_def visit_order_def)
  then have "classify_result (PBytes b) =
      Inr \<lparr>http_status = 200,
           json = envelope 200 (PDict [(''base64'', PBool True), (''data'', PStr (b64encode b))])\<rparr>"
    by (simp add: classify_result_def respond_bytes_def respond_envelope)
  with assms show ?thesis
    by (simp add: invoke_def invoke_try_def call_handler_def Let_def envelope_def)
qed

text \<open>
  C3, as the code has it. A \<open>bytes\<close> result is tagged as base64 by the Push transport
  only: its envelope body is \<open>{base64: true, data: b64encode(result)}\<close>. In the Poll
  transport \<open>json.dumps\<close> refuses the result, nothing is posted to the response
  endpoint, and the one POST of the turn reports the failure to the error endpoint. In
  the Stream transport \<open>json.dumps\<close> refuses the response frame inside \<open>send\<close> and no
  frame is handed to the socket. No transport sends the raw bytes.
\<close>

theorem bytes_result_per_transport:
  "(\<not> is_shutting_down self \<and> read_deadline req = Inr d \<and> get_json req = Inr ev
      \<and> handler self = Some h \<and> h ev (make_context w d (read_request_id req)) = Inr (PBytes b)
     \<longrightarrow> snd (invoke self w req) =
           Inr \<lparr>http_status = 200,
                json = PDict [(''status_code'', PInt 200),
                              (''body'', PDict [(''base64'', PBool True),
                                               (''data'', PStr (b64encode b))]),
                              (''logs'', PList [])]\<rparr>)
   \<and> (fetched c = Inr invocation
      \<and> lambda_handler p (payload invocation) (poll_context p invocation) = Inr (PBytes b)
     \<longrightarrow> http_posts (main_cycle p c) =
           [(invocation_url (env p) (requestId invocation) ''error'',
             error_data p (raise_exc ''Exception''
               ''Failed to post response: Object of type bytes is not JSON serializable''))])
   \<and> (lambda_handler p (dict_get message ''payload'') (stream_context p message) = Inr (PBytes b)
     \<longrightarrow> sent (fst (handle_invocation p ws message fails)) = [])"
  using push_bytes poll_bytes stream_bytes by blast

text \<open>
  C3 as stated says that every transport surfaces the result tagged as base64. For a
  handler that returns \<open>b"hi"\<close>, the Poll transport posts only an error document and
  the Stream transport sends nothing.
\<close>

theorem bytes_result_counterexample:
  "http_posts (main_cycle bytes_process quiet_cycle) =
     [(''http://localhost:9001/2018-06-01/runtime/invocation/req-1/error'',
       PDict [(''errorType'', PStr ''Exception''),
              (''errorMessage'',
               PStr ''Failed to post response: Object of type bytes is not JSON serializable''),
              (''stackTrace'',
               PList [PStr ''Exception: Failed to post response: Object of type bytes is not JSON serializable''])])]
   \<and> sent (fst (handle_invocation bytes_process connected_runtime test_message None)) = []"
proof -
  have "http_posts (main_cycle bytes_process quiet_cycle) =
     [(''http://localhost:9001/2018-06-01/runtime/invocation/req-1/error'',
       PDict [(''errorType'', PStr ''Exception''),
              (''errorMessage'',
               PStr ''Failed to post response: Object of type bytes is not JSON serializable''),
              (''stackTrace'',
               PList [PStr ''Exception: Failed to post response: Object of type bytes is not JSON serializable''])])]"
    by (simp add: main_cycle_def get_next_invocation_def dispatch_try_def post_response_def
        post_error_posts Let_def quiet_cycle_def test_urls bytes_not_serializable
        error_data_def raise_exc_def bytes_process_def bytes_handler_def
        test_process_def test_invocation_def)
  moreover have "sent (fst (handle_invocation bytes_process connected_runtime test_message None)) = []"
    by (rule stream_bytes) (simp add: bytes_process_def bytes_handler_def)
  ultimately show ?thesis by simp
qed

theorem bytes_result_per_transport_witness:
  "\<not> is_shutting_down (test_runtime\<lparr>handler := Some bytes_handler\<rparr>)
   \<and> read_deadline test_request = Inr 3000 \<and> get_json test_request = Inr test_payload
   \<and> handler (test_runtime\<lparr>handler := Some bytes_handler\<rparr>) = Some bytes_handler
   \<and> bytes_handler test_payload (make_context test_surroundings 3000 (read_request_id test_request))
        = Inr (PBytes [0x68, 0x69])
   \<and> snd (invoke (test_runtime\<lparr>handler := Some bytes_handler\<rparr>) test_surroundings test_request) =
        Inr \<lparr>http_status = 200,
             json = PDict [(''status_code'', PInt 200),
                           (''body'', PDict [(''base64'', PBool True), (''data'', PStr ''aGk='')]),
                           (''logs'', PList [])]\<rparr>
   \<and> fetched quiet_cycle = Inr test_invocation
   \<and> lambda_handler bytes_process (payload test_invocation)
        (poll_context bytes_process test_invocation) = Inr (PBytes [0x68, 0x69])
   \<and> http_posts (main_cycle bytes_process quiet_cycle) =
        [(invocation_url (env bytes_process) (requestId test_invocation) ''error'',
          error_data bytes_process (raise_exc ''Exception''
            ''Failed to post response: Object of type bytes is not JSON serializable''))]
   \<and> lambda_handler bytes_process (dict_get test_message ''payload'')
        (stream_context bytes_process test_message) = Inr (PBytes [0x68, 0x69])
   \<and> sent (fst (handle_invocation bytes_process connected_runtime test_message None)) = []"
proof -
  have a: "\<not> is_shutting_down (test_runtime\<lparr>handler := Some bytes_handler\<rparr>)"
    "handler (test_runtime\<lparr>handler := Some bytes_handler\<rparr>) = Some bytes_handler"
    by (simp_all add: test_runtime_def)
  have b: "read_deadline test_request = Inr 3000" "get_json test_request = Inr test_payload"
    by (simp_all add: read_deadline_def test_request_def py_int_str_3000)
  have c: "bytes_handler test_payload
      (make_context test_surroundings 3000 (read_request_id test_request)) = Inr (PBytes [0x68, 0x69])"
    by (simp add: bytes_handler_def)
  have d: "fetched quiet_cycle = Inr test_invocation"
    by (simp add: quiet_cycle_def)
  have e: "lambda_handler bytes_process (payload test_invocation)
        (poll_context bytes_process test_invocation) = Inr (PBytes [0x68, 0x69])"
    "lambda_handler bytes_process (dict_get test_message ''payload'')
        (stream_context bytes_process test_message) = Inr (PBytes [0x68, 0x69])"
    by (simp_all add: bytes_process_def bytes_handler_def)
  have f: "b64encode [0x68, 0x69] = ''aGk=''"
    by code_simp
  from bytes_result_per_transport [of "test_runtime\<lparr>handler := Some bytes_handler\<rparr>"
      test_request 3000 test_payload bytes_handler test_surroundings "[0x68, 0x69]"
      quiet_cycle test_invocation bytes_process test_message connected_runtime None]
  show ?thesis
    using a b c d e f by simp
qed

end
